theory Spec2Isabelle
  imports Complex_Main "HOL-Library.Char_ord" "HOL-Library.List_Lexorder"
begin

section \<open>Data frames as the script uses them\<close>

text \<open>
  \<^verbatim>\<open>app.py\<close> is a straight-line script over three pandas data frames. A cell of a
  frame is missing (\<open>NaN\<close>), an integer count, a text, a parsed calendar day
  (\<open>Timestamp year month day\<close>), the missing date \<open>NaT\<close>, or a monthly period, kept
  as pandas keeps it: the number of months since January 1970.

  A frame is its column index and its records; \<open>r c\<close> is the cell of record \<open>r\<close> in
  column \<open>c\<close>, read only after the column has been found in the index. The metric
  columns are of a numeric dtype and the \<open>state\<close> column holds texts or \<open>NaN\<close>.
\<close>

datatype cell = NaN | Num int | Str string | Timestamp int int int | NaT | Period int

type_synonym row = "string \<Rightarrow> cell"

record frame =
  columns :: "string list"
  rows :: "row list"

datatype error = FileNotFoundError string | KeyError string

text \<open>\<^verbatim>\<open>df[c]\<close>: the column, or \<^verbatim>\<open>KeyError\<close> when the index does not have it.\<close>

definition getcol :: "frame \<Rightarrow> string \<Rightarrow> error + cell list" where
  "getcol df c =
     (if c \<in> set (columns df) then Inr (map (\<lambda>r. r c) (rows df)) else Inl (KeyError c))"

text \<open>\<^verbatim>\<open>df[c] = values\<close>: replaces the column, or appends it to the index.\<close>

definition setcol :: "frame \<Rightarrow> string \<Rightarrow> cell list \<Rightarrow> frame" where
  "setcol df c vs =
     \<lparr>columns = (if c \<in> set (columns df) then columns df else columns df @ [c]),
      rows = map2 (\<lambda>r v. r(c := v)) (rows df) vs\<rparr>"

text \<open>\<^verbatim>\<open>df[[c1, c2, ...]]\<close>: the sub-frame, or \<^verbatim>\<open>KeyError\<close> on the first missing name.\<close>

definition select_cols :: "frame \<Rightarrow> string list \<Rightarrow> error + frame" where
  "select_cols df cs =
     (case filter (\<lambda>c. c \<notin> set (columns df)) cs of
        [] \<Rightarrow> Inr \<lparr>columns = cs, rows = rows df\<rparr>
      | c # _ \<Rightarrow> Inl (KeyError c))"

text \<open>\<^verbatim>\<open>df[mask]\<close>: a new frame with the records where the mask holds.\<close>

definition boolean_index :: "frame \<Rightarrow> bool list \<Rightarrow> frame" where
  "boolean_index df keep =
     \<lparr>columns = columns df, rows = map fst (filter snd (zip (rows df) keep))\<rparr>"

subsection \<open>Dates: \<^verbatim>\<open>pd.to_datetime(..., format='%d-%m-%Y', errors='coerce')\<close>\<close>

definition is_digit :: "char \<Rightarrow> bool" where
  "is_digit c = (CHR ''0'' \<le> c \<and> c \<le> CHR ''9'')"

definition digit_val :: "char \<Rightarrow> int" where
  "digit_val c = int (of_char c) - 48"

definition number_of :: "string \<Rightarrow> int" where
  "number_of s = foldl (\<lambda>n c. 10 * n + digit_val c) 0 s"

fun split_on :: "char \<Rightarrow> string \<Rightarrow> string list" where
  "split_on sep [] = [[]]"
| "split_on sep (c # cs) =
     (case split_on sep cs of
        [] \<Rightarrow> [[c]]
      | w # ws \<Rightarrow> if c = sep then [] # w # ws else (c # w) # ws)"

definition leap_year :: "int \<Rightarrow> bool" where
  "leap_year y = (y mod 4 = 0 \<and> (y mod 100 \<noteq> 0 \<or> y mod 400 = 0))"

definition days_in_month :: "int \<Rightarrow> int \<Rightarrow> int" where
  "days_in_month y m =
     (if m = 2 then (if leap_year y then 29 else 28)
      else if m = 4 \<or> m = 6 \<or> m = 9 \<or> m = 11 then 30 else 31)"

text \<open>
  The fixed format: day, month and a four-digit year, separated by \<open>-\<close>, naming a day of
  the calendar that a nanosecond timestamp can hold (1677-09-22 to 2262-04-11).
\<close>

definition in_bounds :: "int \<Rightarrow> int \<Rightarrow> int \<Rightarrow> bool" where
  "in_bounds y m d =
     ((1677 < y \<or> (y = 1677 \<and> (9 < m \<or> (m = 9 \<and> 22 \<le> d)))) \<and>
      (y < 2262 \<or> (y = 2262 \<and> (m < 4 \<or> (m = 4 \<and> d \<le> 11)))))"

text \<open>The day may be written with a space in place of a leading zero.\<close>

fun day_digits :: "string \<Rightarrow> string" where
  "day_digits [c, d] = (if c = CHR '' '' then [d] else [c, d])"
| "day_digits ds = ds"

definition strptime_dmy :: "string \<Rightarrow> cell" where
  "strptime_dmy s =
     (case split_on CHR ''-'' s of
        [dd, ms, ys] \<Rightarrow>
          (let ds = day_digits dd; d = number_of ds; m = number_of ms; y = number_of ys in
           if list_all is_digit ds \<and> list_all is_digit ms \<and> list_all is_digit ys
              \<and> (length ds = 1 \<or> length ds = 2) \<and> (length ms = 1 \<or> length ms = 2)
              \<and> length ys = 4
              \<and> 1 \<le> m \<and> m \<le> 12 \<and> 1 \<le> d \<and> d \<le> days_in_month y m \<and> in_bounds y m d
           then Timestamp y m d else NaT)
      | _ \<Rightarrow> NaT)"

text \<open>\<^verbatim>\<open>errors='coerce'\<close>: whatever does not parse becomes \<open>NaT\<close>; nothing is raised.\<close>

fun to_datetime :: "cell \<Rightarrow> cell" where
  "to_datetime (Str s) = strptime_dmy s"
| "to_datetime (Timestamp y m d) = Timestamp y m d"
| "to_datetime c = NaT"

text \<open>\<^verbatim>\<open>.dt.to_period('M')\<close>: the month of the day; \<open>NaT\<close> stays \<open>NaT\<close>.\<close>

fun to_period_M :: "cell \<Rightarrow> cell" where
  "to_period_M (Timestamp y m d) = Period ((y - 1970) * 12 + (m - 1))"
| "to_period_M c = NaT"

text \<open>
  The body of the loop at lines 31 to 33:
  \<^verbatim>\<open>
  df['date'] = pd.to_datetime(df['date'], format='%d-%m-%Y', errors='coerce')
  df['month'] = df['date'].dt.to_period('M')
  \<close>
\<close>

definition date_fix :: "frame \<Rightarrow> error + frame" where
  "date_fix df =
     (case getcol df ''date'' of
        Inl e \<Rightarrow> Inl e
      | Inr ds \<Rightarrow>
          (let df1 = setcol df ''date'' (map to_datetime ds) in
           case getcol df1 ''date'' of
             Inl e \<Rightarrow> Inl e
           | Inr ts \<Rightarrow> Inr (setcol df1 ''month'' (map to_period_M ts))))"

subsection \<open>The state filter\<close>

text \<open>\<^verbatim>\<open>Series.dropna()\<close> and \<^verbatim>\<open>Series.unique()\<close> (first occurrences, in order).\<close>

definition dropna :: "cell list \<Rightarrow> cell list" where
  "dropna cs = filter (\<lambda>c. c \<noteq> NaN \<and> c \<noteq> NaT) cs"

definition unique :: "'a list \<Rightarrow> 'a list" where
  "unique xs = rev (remdups (rev xs))"

definition texts :: "cell list \<Rightarrow> string list" where
  "texts cs = List.map_filter (\<lambda>c. case c of Str s \<Rightarrow> Some s | _ \<Rightarrow> None) cs"

text \<open>
  The choices of the select box, line 42:
  \<^verbatim>\<open>["All"] + sorted(enrol['state'].dropna().unique().tolist())\<close>
\<close>

definition state_options :: "frame \<Rightarrow> error + string list" where
  "state_options enrol =
     (case getcol enrol ''state'' of
        Inl e \<Rightarrow> Inl e
      | Inr sc \<Rightarrow> Inr (''All'' # sort (texts (unique (dropna sc)))))"

text \<open>\<^verbatim>\<open>df[df['state'] == state]\<close>: the comparison is elementwise and exact; a missing
  state equals no text.\<close>

definition filter_state :: "frame \<Rightarrow> string \<Rightarrow> error + frame" where
  "filter_state df s =
     (case getcol df ''state'' of
        Inl e \<Rightarrow> Inl e
      | Inr sc \<Rightarrow> Inr (boolean_index df (map (\<lambda>c. c = Str s) sc)))"

subsection \<open>Scalar totals\<close>

text \<open>\<^verbatim>\<open>sum\<close> skips missing values: a cell that is not a number adds nothing.\<close>

fun num :: "cell \<Rightarrow> int" where
  "num (Num n) = n"
| "num c = 0"

definition col_sum :: "frame \<Rightarrow> string \<Rightarrow> int" where
  "col_sum df c = sum_list (map (\<lambda>r. num (r c)) (rows df))"

text \<open>\<^verbatim>\<open>df[[c1, c2, ...]].sum().sum()\<close>: the sum of the column sums.\<close>

definition total :: "frame \<Rightarrow> string list \<Rightarrow> error + int" where
  "total df cs =
     (case select_cols df cs of
        Inl e \<Rightarrow> Inl e
      | Inr sub \<Rightarrow> Inr (sum_list (map (col_sum sub) (columns sub))))"

definition enrol_cols :: "string list" where
  "enrol_cols = [''age_0_5'', ''age_5_17'', ''age_18_greater'']"

definition demo_cols :: "string list" where
  "demo_cols = [''demo_age_5_17'', ''demo_age_17_'']"

definition bio_cols :: "string list" where
  "bio_cols = [''bio_age_5_17'', ''bio_age_17_'']"

subsection \<open>Monthly series\<close>

text \<open>
  A series is its index and its values, in the order of the index. The monthly series are
  indexed by month (line 104 relabels the months by their texts and changes neither the
  order nor a value; the model keeps the months).
\<close>

type_synonym series = "(int \<times> int) list"

definition periods :: "cell list \<Rightarrow> int list" where
  "periods cs = List.map_filter (\<lambda>c. case c of Period p \<Rightarrow> Some p | _ \<Rightarrow> None) cs"

text \<open>
  \<^verbatim>\<open>df.groupby('month')[[c1, c2, ...]].sum()\<close>: one line per distinct key, keys
  ascending (\<^verbatim>\<open>sort=True\<close>), records with a missing key dropped (\<^verbatim>\<open>dropna=True\<close>),
  one sum per named column.
\<close>

definition groupby_sum :: "frame \<Rightarrow> string \<Rightarrow> string list \<Rightarrow> error + (int \<times> int list) list" where
  "groupby_sum df by cs =
     (case getcol df by of
        Inl e \<Rightarrow> Inl e
      | Inr ks \<Rightarrow>
          (case select_cols df cs of
             Inl e \<Rightarrow> Inl e
           | Inr sub \<Rightarrow>
               Inr (map (\<lambda>k. (k, map (\<lambda>c. sum_list (map (\<lambda>r. num (r c))
                                           (filter (\<lambda>r. r by = Period k) (rows df))))
                                   (columns sub)))
                        (sort (unique (periods (dropna ks)))))))"

text \<open>\<^verbatim>\<open>.sum(axis=1)\<close>: the sum of each line.\<close>

definition sum_axis1 :: "(int \<times> int list) list \<Rightarrow> series" where
  "sum_axis1 g = map (\<lambda>(k, vs). (k, sum_list vs)) g"

text \<open>Lines 74 and 75: \<^verbatim>\<open>df.groupby('month')[[...]].sum().sum(axis=1)\<close>.\<close>

definition monthly_sum :: "frame \<Rightarrow> string list \<Rightarrow> error + series" where
  "monthly_sum df cs =
     (case groupby_sum df ''month'' cs of
        Inl e \<Rightarrow> Inl e
      | Inr g \<Rightarrow> Inr (sum_axis1 g))"

text \<open>
  Line 101, \<^verbatim>\<open>monthly_demo.add(monthly_bio, fill_value=0)\<close>: the two series are aligned
  on the union of their indexes (kept when they are equal, sorted otherwise), and a
  month that one of them lacks counts as 0 there.
\<close>

definition lookup0 :: "series \<Rightarrow> int \<Rightarrow> int" where
  "lookup0 s k = (case map_of s k of None \<Rightarrow> 0 | Some v \<Rightarrow> v)"

definition union_index :: "int list \<Rightarrow> int list \<Rightarrow> int list" where
  "union_index ka kb = (if ka = kb then ka else sort (remdups (ka @ kb)))"

definition series_add :: "series \<Rightarrow> series \<Rightarrow> series" where
  "series_add a b =
     map (\<lambda>k. (k, lookup0 a k + lookup0 b k)) (union_index (map fst a) (map fst b))"

subsection \<open>Floating-point results\<close>

text \<open>
  The statistics are computed in floating point. The model keeps the values exact and
  keeps the three values that are not numbers: the infinities and \<open>NaN\<close>, which is what
  a division by zero gives instead of an exception.
\<close>

datatype fnum = Fin real | PosInf | NegInf | FNaN

fun fsub :: "fnum \<Rightarrow> fnum \<Rightarrow> fnum" where
  "fsub (Fin a) (Fin b) = Fin (a - b)"
| "fsub FNaN y = FNaN"
| "fsub x FNaN = FNaN"
| "fsub PosInf PosInf = FNaN"
| "fsub NegInf NegInf = FNaN"
| "fsub PosInf y = PosInf"
| "fsub NegInf y = NegInf"
| "fsub (Fin a) PosInf = NegInf"
| "fsub (Fin a) NegInf = PosInf"

fun fdiv :: "fnum \<Rightarrow> fnum \<Rightarrow> fnum" where
  "fdiv (Fin a) (Fin b) =
     (if b = 0 then (if a = 0 then FNaN else if 0 < a then PosInf else NegInf)
      else Fin (a / b))"
| "fdiv FNaN y = FNaN"
| "fdiv x FNaN = FNaN"
| "fdiv (Fin a) y = Fin 0"
| "fdiv PosInf (Fin b) = (if 0 \<le> b then PosInf else NegInf)"
| "fdiv NegInf (Fin b) = (if 0 \<le> b then NegInf else PosInf)"
| "fdiv x y = FNaN"

fun fabs :: "fnum \<Rightarrow> fnum" where
  "fabs (Fin a) = Fin \<bar>a\<bar>"
| "fabs NegInf = PosInf"
| "fabs x = x"

text \<open>\<open>x > c\<close> for a number \<open>c\<close>: false on \<open>NaN\<close>.\<close>

fun fgt :: "fnum \<Rightarrow> real \<Rightarrow> bool" where
  "fgt (Fin a) c = (c < a)"
| "fgt PosInf c = True"
| "fgt x c = False"

text \<open>\<^verbatim>\<open>Series.mean()\<close>: \<open>NaN\<close> on the empty series.\<close>

definition mean :: "int list \<Rightarrow> fnum" where
  "mean xs = (if xs = [] then FNaN else Fin (real_of_int (sum_list xs) / real (length xs)))"

text \<open>
  \<^verbatim>\<open>Series.std()\<close>, with its default \<^verbatim>\<open>ddof=1\<close>: the square root of the sum of the squared
  deviations from the mean over \<open>n - 1\<close>; \<open>NaN\<close> when \<open>n - 1\<close> is not positive.
\<close>

definition std :: "int list \<Rightarrow> fnum" where
  "std xs =
     (if length xs \<le> 1 then FNaN
      else let avg = real_of_int (sum_list xs) / real (length xs);
               sqr = sum_list (map (\<lambda>x. (avg - real_of_int x)\<^sup>2) xs)
           in Fin (sqrt (sqr / real (length xs - 1))))"

text \<open>
  Lines 114 and 115:
  \<^verbatim>\<open>
  z_scores = (s - s.mean()) / s.std()
  anomalies = df_monthly_total[z_scores.abs() > 2]
  \<close>
\<close>

definition z_scores :: "int list \<Rightarrow> fnum list" where
  "z_scores xs = map (\<lambda>x. fdiv (fsub (Fin (real_of_int x)) (mean xs)) (std xs)) xs"

definition anomalies :: "series \<Rightarrow> series" where
  "anomalies s =
     map fst (filter snd (zip s (map (\<lambda>z. fgt (fabs z) 2) (z_scores (map snd s)))))"

text \<open>
  Line 142, \<^verbatim>\<open>monthly_total.rolling(3).mean()\<close>: at each position the window is the last
  \<open>w\<close> values up to it; the mean is given when the window holds at least
  \<^verbatim>\<open>min_periods\<close> values, which defaults to \<open>w\<close>, and is \<open>NaN\<close> otherwise.
\<close>

definition rolling_mean :: "nat \<Rightarrow> int list \<Rightarrow> fnum list" where
  "rolling_mean w xs =
     map (\<lambda>i. let win = drop (Suc i - w) (take (Suc i) xs) in
              if w \<le> length win \<and> 0 < length win
              then Fin (real_of_int (sum_list win) / real (length win)) else FNaN)
         [0..<length xs]"

definition rolling_avg :: "series \<Rightarrow> (int \<times> fnum) list" where
  "rolling_avg s = zip (map fst s) (rolling_mean 3 (map snd s))"

section \<open>The script\<close>

text \<open>
  The script reads three files, so the file system is a map from paths to the frames
  \<^verbatim>\<open>pd.read_csv\<close> makes of them. The frames are objects: the names \<^verbatim>\<open>enrol\<close>,
  \<^verbatim>\<open>demo\<close> and \<^verbatim>\<open>bio\<close> hold references into a heap of frames. The date loop
  writes into the objects it is given; the filter makes new objects and moves the names
  to them.
\<close>

type_synonym filesystem = "string \<Rightarrow> frame option"

definition read_csv :: "filesystem \<Rightarrow> string \<Rightarrow> error + frame" where
  "read_csv fs path = (case fs path of None \<Rightarrow> Inl (FileNotFoundError path) | Some df \<Rightarrow> Inr df)"

definition load_data :: "filesystem \<Rightarrow> error + frame \<times> frame \<times> frame" where
  "load_data fs =
     (case read_csv fs ''api_data_aadhar_enrolment.csv'' of
        Inl e \<Rightarrow> Inl e
      | Inr enrol \<Rightarrow>
     (case read_csv fs ''api_data_aadhar_demograp.csv'' of
        Inl e \<Rightarrow> Inl e
      | Inr demo \<Rightarrow>
     (case read_csv fs ''api_data_aadhar_biometric.csv'' of
        Inl e \<Rightarrow> Inl e
      | Inr bio \<Rightarrow> Inr (enrol, demo, bio))))"

record pystate =
  heap :: "frame list"
  enrol_ref :: nat
  demo_ref :: nat
  bio_ref :: nat

text \<open>Line 26: \<^verbatim>\<open>enrol, demo, bio = load_data()\<close>.\<close>

definition bind_loaded :: "frame \<times> frame \<times> frame \<Rightarrow> pystate" where
  "bind_loaded t =
     (case t of (enrol, demo, bio) \<Rightarrow>
        \<lparr>heap = [enrol, demo, bio], enrol_ref = 0, demo_ref = 1, bio_ref = 2\<rparr>)"

text \<open>Lines 31 to 33: \<^verbatim>\<open>for df in [enrol, demo, bio]\<close>, each frame changed in place; the
  first \<^verbatim>\<open>KeyError\<close> ends the script.\<close>

fun date_loop :: "nat list \<Rightarrow> frame list \<Rightarrow> error + frame list" where
  "date_loop [] h = Inr h"
| "date_loop (a # as) h =
     (case date_fix (h ! a) of
        Inl e \<Rightarrow> Inl e
      | Inr df \<Rightarrow> date_loop as (h[a := df]))"

definition date_stage :: "pystate \<Rightarrow> error + pystate" where
  "date_stage st =
     (case date_loop [enrol_ref st, demo_ref st, bio_ref st] (heap st) of
        Inl e \<Rightarrow> Inl e
      | Inr h \<Rightarrow> Inr (st\<lparr>heap := h\<rparr>))"

text \<open>
  Lines 45 to 48:
  \<^verbatim>\<open>
  if state != "All":
      enrol = enrol[enrol['state'] == state]
      demo = demo[demo['state'] == state]
      bio = bio[bio['state'] == state]
  \<close>
\<close>

definition filter_stage :: "string \<Rightarrow> pystate \<Rightarrow> error + pystate" where
  "filter_stage state st =
     (if state \<noteq> ''All'' then
        (case filter_state (heap st ! enrol_ref st) state of
           Inl e \<Rightarrow> Inl e
         | Inr enrol \<Rightarrow>
        (case filter_state (heap st ! demo_ref st) state of
           Inl e \<Rightarrow> Inl e
         | Inr demo \<Rightarrow>
        (case filter_state (heap st ! bio_ref st) state of
           Inl e \<Rightarrow> Inl e
         | Inr bio \<Rightarrow>
             Inr \<lparr>heap = heap st @ [enrol, demo, bio],
                  enrol_ref = length (heap st),
                  demo_ref = length (heap st) + 1,
                  bio_ref = length (heap st) + 2\<rparr>)))
      else Inr st)"

text \<open>The frames the three names stand for.\<close>

definition enrol_of :: "pystate \<Rightarrow> frame" where
  "enrol_of st = heap st ! enrol_ref st"

definition demo_of :: "pystate \<Rightarrow> frame" where
  "demo_of st = heap st ! demo_ref st"

definition bio_of :: "pystate \<Rightarrow> frame" where
  "bio_of st = heap st ! bio_ref st"

text \<open>Lines 55 to 57: the three totals of the overview.\<close>

definition totals :: "pystate \<Rightarrow> error + int \<times> int \<times> int" where
  "totals st =
     (case total (enrol_of st) enrol_cols of
        Inl e \<Rightarrow> Inl e
      | Inr total_enrol \<Rightarrow>
     (case total (demo_of st) demo_cols of
        Inl e \<Rightarrow> Inl e
      | Inr total_demo \<Rightarrow>
     (case total (bio_of st) bio_cols of
        Inl e \<Rightarrow> Inl e
      | Inr total_bio \<Rightarrow> Inr (total_enrol, total_demo, total_bio))))"

text \<open>What the script hands to the charts.\<close>

record outputs =
  options :: "string list"
  total_enrol :: int
  total_demo :: int
  total_bio :: int
  monthly_demo :: series
  monthly_bio :: series
  monthly_total :: series
  flagged :: series
  trend :: "(int \<times> fnum) list"

text \<open>
  Lines 55 to 142, below the filter: the totals, the two monthly series, their sum, the
  flagged months and the rolling average.
\<close>

definition report :: "string list \<Rightarrow> pystate \<Rightarrow> error + outputs" where
  "report opts st =
     (case totals st of
        Inl e \<Rightarrow> Inl e
      | Inr (t_enrol, t_demo, t_bio) \<Rightarrow>
     (case monthly_sum (demo_of st) demo_cols of
        Inl e \<Rightarrow> Inl e
      | Inr m_demo \<Rightarrow>
     (case monthly_sum (bio_of st) bio_cols of
        Inl e \<Rightarrow> Inl e
      | Inr m_bio \<Rightarrow>
          (let m_total = series_add m_demo m_bio in
           Inr \<lparr>options = opts,
                total_enrol = t_enrol, total_demo = t_demo, total_bio = t_bio,
                monthly_demo = m_demo, monthly_bio = m_bio, monthly_total = m_total,
                flagged = anomalies m_total,
                trend = rolling_avg m_total\<rparr>))))"

text \<open>
  The script from top to bottom, for the files \<open>fs\<close> and the choice \<open>state\<close> made in
  the select box. Every exception the script can raise is a \<^verbatim>\<open>KeyError\<close> of a column
  access or a missing file; nothing catches it.
\<close>

definition run :: "filesystem \<Rightarrow> string \<Rightarrow> error + outputs" where
  "run fs state =
     (case load_data fs of
        Inl e \<Rightarrow> Inl e
      | Inr loaded \<Rightarrow>
     (case date_stage (bind_loaded loaded) of
        Inl e \<Rightarrow> Inl e
      | Inr st0 \<Rightarrow>
     (case state_options (enrol_of st0) of
        Inl e \<Rightarrow> Inl e
      | Inr opts \<Rightarrow>
     (case filter_stage state st0 of
        Inl e \<Rightarrow> Inl e
      | Inr st \<Rightarrow> report opts st))))"

section \<open>Notions the properties are stated with\<close>

text \<open>The records of a frame whose state is the text \<open>s\<close>.\<close>

definition by_state :: "string \<Rightarrow> frame \<Rightarrow> frame" where
  "by_state s df = \<lparr>columns = columns df, rows = filter (\<lambda>r. r ''state'' = Str s) (rows df)\<rparr>"

text \<open>The frames the three names stand for after a stage, or its error.\<close>

definition views :: "error + pystate \<Rightarrow> error + frame \<times> frame \<times> frame" where
  "views x = (case x of Inl e \<Rightarrow> Inl e | Inr st \<Rightarrow> Inr (enrol_of st, demo_of st, bio_of st))"



















text \<open>
  The mean and the sample standard deviation of a series as real numbers, and the test
  of the specification: the distance from the mean over the standard deviation exceeds 2.
\<close>

definition mean_r :: "int list \<Rightarrow> real" where
  "mean_r xs = real_of_int (sum_list xs) / real (length xs)"

definition sd_r :: "int list \<Rightarrow> real" where
  "sd_r xs = sqrt (sum_list (map (\<lambda>x. (real_of_int x - mean_r xs)\<^sup>2) xs) / (real (length xs) - 1))"

definition is_outlier :: "int list \<Rightarrow> int \<Rightarrow> bool" where
  "is_outlier xs v = (\<bar>real_of_int v - mean_r xs\<bar> / sd_r xs > 2)"

section \<open>Sample data\<close>

definition mk_row :: "(string \<times> cell) list \<Rightarrow> row" where
  "mk_row kvs c = (case map_of kvs c of None \<Rightarrow> NaN | Some v \<Rightarrow> v)"

definition enrol_row :: "cell \<Rightarrow> string \<Rightarrow> int \<Rightarrow> int \<Rightarrow> int \<Rightarrow> row" where
  "enrol_row s d a b c =
     mk_row [(''state'', s), (''date'', Str d),
             (''age_0_5'', Num a), (''age_5_17'', Num b), (''age_18_greater'', Num c)]"

definition demo_row :: "cell \<Rightarrow> string \<Rightarrow> int \<Rightarrow> int \<Rightarrow> row" where
  "demo_row s d a b =
     mk_row [(''state'', s), (''date'', Str d), (''demo_age_5_17'', Num a), (''demo_age_17_'', Num b)]"

definition bio_row :: "cell \<Rightarrow> string \<Rightarrow> int \<Rightarrow> int \<Rightarrow> row" where
  "bio_row s d a b =
     mk_row [(''state'', s), (''date'', Str d), (''bio_age_5_17'', Num a), (''bio_age_17_'', Num b)]"

definition ex_enrol :: frame where
  "ex_enrol =
     \<lparr>columns = ''state'' # ''date'' # enrol_cols,
      rows = [enrol_row (Str ''KA'') ''05-01-2025'' 5 10 85,
              enrol_row (Str ''MH'') ''17-02-2025'' 1 2 3]\<rparr>"

definition ex_demo :: frame where
  "ex_demo =
     \<lparr>columns = ''state'' # ''date'' # demo_cols,
      rows = [demo_row (Str ''KA'') ''05-01-2025'' 4 6,
              demo_row (Str ''MH'') ''31-02-2025'' 2 3,
              demo_row (Str ''KA'') ''20-03-2025'' 1 1]\<rparr>"

definition ex_bio :: frame where
  "ex_bio =
     \<lparr>columns = ''state'' # ''date'' # bio_cols,
      rows = [bio_row (Str ''KA'') ''11-02-2025'' 7 1,
              bio_row (Str ''MH'') ''12-02-2025'' 2 2]\<rparr>"






definition ex_state :: pystate where
  "ex_state = bind_loaded (ex_enrol, ex_demo, ex_bio)"





definition ex_short :: series where
  "ex_short = [(660, 0), (661, 0), (662, 0), (663, 0), (664, 100)]"


section \<open>Frames and columns\<close>

lemma zip_map_filter_snd:
  "map fst (filter snd (zip xs (map P xs))) = filter P xs"
  by (induction xs) auto

lemma getcol_Inr:
  "c \<in> set (columns df) \<Longrightarrow> getcol df c = Inr (map (\<lambda>r. r c) (rows df))"
  by (simp add: getcol_def)

lemma getcol_Inl:
  "c \<notin> set (columns df) \<Longrightarrow> getcol df c = Inl (KeyError c)"
  by (simp add: getcol_def)

lemma filter_state_Inr:
  "''state'' \<in> set (columns df) \<Longrightarrow> filter_state df s = Inr (by_state s df)"
proof -
  assume "''state'' \<in> set (columns df)"
  moreover have "map fst (filter snd (zip (rows df)
        (map (\<lambda>c. c = Str s) (map (\<lambda>r. r ''state'') (rows df)))))
     = filter (\<lambda>r. r ''state'' = Str s) (rows df)"
    using zip_map_filter_snd [where P = "\<lambda>r. r ''state'' = Str s" and xs = "rows df"]
    by (simp add: comp_def)
  ultimately show ?thesis
    by (simp add: filter_state_def getcol_Inr boolean_index_def by_state_def)
qed

lemma filter_state_Inl:
  "''state'' \<notin> set (columns df) \<Longrightarrow> filter_state df s = Inl (KeyError ''state'')"
  by (simp add: filter_state_def getcol_Inl)







section \<open>The filter stage\<close>

text \<open>
  C8. Whatever state is chosen, the filter stage gives, for each of the three tables,
  the frame of exactly the records whose \<open>state\<close> is that text (texts are compared
  exactly, so letter case counts); the choice \<open>All\<close> leaves the state of the script as
  it is. In both cases every frame that was on the heap before is still there,
  unchanged, so the loaded tables are not written to, and filtering again from the
  loaded tables, for any choice, gives what it would have given at first.
\<close>

theorem filter_stage_frame:
  assumes cols: "state \<noteq> ''All'' \<longrightarrow>
      ''state'' \<in> set (columns (enrol_of st)) \<and>
      ''state'' \<in> set (columns (demo_of st)) \<and>
      ''state'' \<in> set (columns (bio_of st))"
    and refs: "enrol_ref st < length (heap st)" "demo_ref st < length (heap st)"
      "bio_ref st < length (heap st)"
  shows "\<exists>st'. filter_stage state st = Inr st' \<and>
     (state \<noteq> ''All'' \<longrightarrow>
        enrol_of st' = by_state state (enrol_of st) \<and>
        demo_of st' = by_state state (demo_of st) \<and>
        bio_of st' = by_state state (bio_of st)) \<and>
     (state = ''All'' \<longrightarrow> st' = st) \<and>
     take (length (heap st)) (heap st') = heap st \<and>
     (\<forall>again. views (filter_stage again
          (st'\<lparr>enrol_ref := enrol_ref st, demo_ref := demo_ref st, bio_ref := bio_ref st\<rparr>))
        = views (filter_stage again st))"
proof (cases "state = ''All''")
  case True
  have "st\<lparr>enrol_ref := enrol_ref st, demo_ref := demo_ref st, bio_ref := bio_ref st\<rparr> = st"
    by simp
  moreover have "filter_stage state st = Inr st"
    using True by (simp add: filter_stage_def)
  ultimately show ?thesis
    using True by simp
next
  case False
  let ?e = "by_state state (enrol_of st)"
  let ?d = "by_state state (demo_of st)"
  let ?b = "by_state state (bio_of st)"
  let ?st = "\<lparr>heap = heap st @ [?e, ?d, ?b], enrol_ref = length (heap st),
     demo_ref = length (heap st) + 1, bio_ref = length (heap st) + 2\<rparr>"
  have run: "filter_stage state st = Inr ?st"
    using False cols
    by (simp add: filter_stage_def enrol_of_def demo_of_def bio_of_def filter_state_Inr)
  have again: "views (filter_stage again
          (?st\<lparr>enrol_ref := enrol_ref st, demo_ref := demo_ref st, bio_ref := bio_ref st\<rparr>))
        = views (filter_stage again st)" for again
    using refs
    by (simp add: views_def filter_stage_def enrol_of_def demo_of_def bio_of_def nth_append
        split: sum.splits)
  show ?thesis
    using False run again
    by (simp add: enrol_of_def demo_of_def bio_of_def nth_append)
qed

lemmas ex_defs = ex_enrol_def ex_demo_def ex_bio_def enrol_row_def demo_row_def bio_row_def
  mk_row_def enrol_cols_def demo_cols_def bio_cols_def ex_state_def bind_loaded_def
  enrol_of_def demo_of_def bio_of_def

theorem filter_stage_frame_witness:
  "(''KA'' \<noteq> ''All'' \<and>
    ''state'' \<in> set (columns (enrol_of ex_state)) \<and>
    ''state'' \<in> set (columns (demo_of ex_state)) \<and>
    ''state'' \<in> set (columns (bio_of ex_state)) \<and>
    enrol_ref ex_state < length (heap ex_state) \<and>
    demo_ref ex_state < length (heap ex_state) \<and>
    bio_ref ex_state < length (heap ex_state)) \<and>
   (\<exists>st'. filter_stage ''KA'' ex_state = Inr st' \<and>
      rows (enrol_of st') = [enrol_row (Str ''KA'') ''05-01-2025'' 5 10 85] \<and>
      rows (demo_of st') = [demo_row (Str ''KA'') ''05-01-2025'' 4 6,
                            demo_row (Str ''KA'') ''20-03-2025'' 1 1] \<and>
      rows (bio_of st') = [bio_row (Str ''KA'') ''11-02-2025'' 7 1] \<and>
      take 3 (heap st') = [ex_enrol, ex_demo, ex_bio]) \<and>
   (\<exists>st'. filter_stage ''ka'' ex_state = Inr st' \<and> rows (enrol_of st') = []) \<and>
   filter_stage ''All'' ex_state = Inr ex_state"
proof -
  have hyp: "''KA'' \<noteq> ''All'' \<and>
    ''state'' \<in> set (columns (enrol_of ex_state)) \<and>
    ''state'' \<in> set (columns (demo_of ex_state)) \<and>
    ''state'' \<in> set (columns (bio_of ex_state)) \<and>
    enrol_ref ex_state < length (heap ex_state) \<and>
    demo_ref ex_state < length (heap ex_state) \<and>
    bio_ref ex_state < length (heap ex_state)"
    by (simp add: ex_defs)
  have upper: "\<exists>st'. filter_stage ''KA'' ex_state = Inr st' \<and>
      rows (enrol_of st') = [enrol_row (Str ''KA'') ''05-01-2025'' 5 10 85] \<and>
      rows (demo_of st') = [demo_row (Str ''KA'') ''05-01-2025'' 4 6,
                            demo_row (Str ''KA'') ''20-03-2025'' 1 1] \<and>
      rows (bio_of st') = [bio_row (Str ''KA'') ''11-02-2025'' 7 1] \<and>
      take 3 (heap st') = [ex_enrol, ex_demo, ex_bio]"
  proof -
    obtain st' where st': "filter_stage ''KA'' ex_state = Inr st'"
      "enrol_of st' = by_state ''KA'' (enrol_of ex_state)"
      "demo_of st' = by_state ''KA'' (demo_of ex_state)"
      "bio_of st' = by_state ''KA'' (bio_of ex_state)"
      "take (length (heap ex_state)) (heap st') = heap ex_state"
      using hyp filter_stage_frame [of "''KA''" ex_state] by auto
    have "rows (by_state ''KA'' (enrol_of ex_state))
        = [enrol_row (Str ''KA'') ''05-01-2025'' 5 10 85]"
      "rows (by_state ''KA'' (demo_of ex_state)) = [demo_row (Str ''KA'') ''05-01-2025'' 4 6,
                            demo_row (Str ''KA'') ''20-03-2025'' 1 1]"
      "rows (by_state ''KA'' (bio_of ex_state)) = [bio_row (Str ''KA'') ''11-02-2025'' 7 1]"
      by (simp_all add: by_state_def ex_state_def bind_loaded_def enrol_of_def demo_of_def
          bio_of_def ex_enrol_def ex_demo_def ex_bio_def enrol_row_def demo_row_def bio_row_def
          mk_row_def)
    moreover have "length (heap ex_state) = 3" "heap ex_state = [ex_enrol, ex_demo, ex_bio]"
      by (simp_all add: ex_state_def bind_loaded_def)
    ultimately show ?thesis
      using st' by (intro exI [of _ st']) (simp add: numeral_3_eq_3)
  qed
  have lower: "\<exists>st'. filter_stage ''ka'' ex_state = Inr st' \<and> rows (enrol_of st') = []"
  proof -
    obtain st2 where "filter_stage ''ka'' ex_state = Inr st2"
      "enrol_of st2 = by_state ''ka'' (enrol_of ex_state)"
      using hyp filter_stage_frame [of "''ka''" ex_state] by auto
    moreover have "rows (by_state ''ka'' (enrol_of ex_state)) = []"
      by (simp add: by_state_def ex_state_def bind_loaded_def enrol_of_def ex_enrol_def
          enrol_row_def mk_row_def)
    ultimately show ?thesis by auto
  qed
  have "filter_stage ''All'' ex_state = Inr ex_state"
    using hyp filter_stage_frame [of "''All''" ex_state] by auto
  with hyp upper lower show ?thesis by blast
qed

section \<open>Totals by state\<close>





















section \<open>Dates and monthly sums\<close>





















section \<open>Missing columns\<close>
















section \<open>Combining two monthly series\<close>










section \<open>The rolling average\<close>





section \<open>Flagged months\<close>

lemma mean_Fin: "xs \<noteq> [] \<Longrightarrow> mean xs = Fin (mean_r xs)"
  by (simp add: mean_def mean_r_def)

lemma std_Fin:
  assumes "2 \<le> length xs"
  shows "std xs = Fin (sd_r xs)"
proof -
  have "real (length xs - 1) = real (length xs) - 1"
    using assms by (simp add: of_nat_diff)
  moreover have "(mean_r xs - real_of_int x)\<^sup>2 = (real_of_int x - mean_r xs)\<^sup>2" for x
    by (simp add: power2_commute)
  ultimately show ?thesis
    using assms by (simp add: std_def sd_r_def Let_def mean_r_def [symmetric])
qed

lemma std_NaN: "length xs < 2 \<Longrightarrow> std xs = FNaN"
  by (simp add: std_def)

lemma sd_r_nonneg: "0 \<le> sd_r xs"
proof (cases "xs = []")
  case True
  then show ?thesis by (simp add: sd_r_def)
next
  case False
  then have "0 \<le> real (length xs) - 1"
    by (cases xs) simp_all
  moreover have "0 \<le> sum_list (map (\<lambda>x. (real_of_int x - mean_r xs)\<^sup>2) xs)"
    by (rule sum_list_nonneg) auto
  ultimately show ?thesis
    by (simp add: sd_r_def)
qed

lemma sd_r_zero:
  assumes "2 \<le> length xs" and "sd_r xs = 0" and "x \<in> set xs"
  shows "real_of_int x = mean_r xs"
proof -
  let ?sq = "map (\<lambda>x. (real_of_int x - mean_r xs)\<^sup>2) xs"
  have pos: "0 < real (length xs) - 1" using assms(1) by simp
  have "sum_list ?sq / (real (length xs) - 1) = 0"
    using assms(2) by (simp add: sd_r_def)
  with pos have "sum_list ?sq = 0" by simp
  moreover have nn: "\<forall>y \<in> set ?sq. 0 \<le> y" by auto
  ultimately have "\<forall>y \<in> set ?sq. y = 0"
    using sum_list_nonneg_eq_0_iff [of ?sq] by blast
  moreover have "(real_of_int x - mean_r xs)\<^sup>2 \<in> set ?sq"
    using assms(3) by auto
  ultimately have "(real_of_int x - mean_r xs)\<^sup>2 = 0" by blast
  then show ?thesis by simp
qed

lemma zip_map_snd_filter:
  "map fst (filter snd (zip s (map P (map snd s)))) = filter (\<lambda>p. P (snd p)) s"
  by (induction s) auto

lemma anomalies_filter:
  "anomalies s =
     filter (\<lambda>p. fgt (fabs (fdiv (fsub (Fin (real_of_int (snd p))) (mean (map snd s)))
                                  (std (map snd s)))) 2) s"
  using zip_map_snd_filter [where s = s
      and P = "\<lambda>x. fgt (fabs (fdiv (fsub (Fin (real_of_int x)) (mean (map snd s))) (std (map snd s)))) 2"]
  by (simp add: anomalies_def z_scores_def comp_def)

lemma flag_regular:
  assumes "2 \<le> length xs" and "sd_r xs \<noteq> 0"
  shows "fgt (fabs (fdiv (fsub (Fin (real_of_int x)) (mean xs)) (std xs))) 2 = is_outlier xs x"
proof -
  have "xs \<noteq> []" using assms(1) by auto
  moreover have "\<bar>sd_r xs\<bar> = sd_r xs" using sd_r_nonneg [of xs] by simp
  ultimately show ?thesis
    using assms by (simp add: mean_Fin std_Fin is_outlier_def)
qed

lemma flag_degenerate:
  assumes "length xs < 2 \<or> sd_r xs = 0" and "x \<in> set xs"
  shows "fdiv (fsub (Fin (real_of_int x)) (mean xs)) (std xs) = FNaN"
proof (cases "length xs < 2")
  case True
  have "xs \<noteq> []" using assms(2) by auto
  then show ?thesis
    using True by (simp add: std_NaN mean_Fin)
next
  case False
  then have n: "2 \<le> length xs" by simp
  with assms have "sd_r xs = 0" by simp
  moreover from this have "real_of_int x = mean_r xs"
    using sd_r_zero [OF n _ assms(2)] by simp
  moreover have "xs \<noteq> []" using assms(2) by auto
  ultimately show ?thesis
    using n by (simp add: mean_Fin std_Fin)
qed




lemma sum_sq_diff:
  "sum_list (map (\<lambda>z. (y - z)\<^sup>2) ys)
   = real (length ys) * y\<^sup>2 - 2 * y * sum_list ys + sum_list (map (\<lambda>z. z\<^sup>2) (ys :: real list))"
  by (induction ys) (simp_all add: power2_diff algebra_simps)

lemma cauchy_list:
  "(sum_list ys)\<^sup>2 \<le> real (length ys) * sum_list (map (\<lambda>z. z\<^sup>2) (ys :: real list))"
proof (induction ys)
  case Nil
  then show ?case by simp
next
  case (Cons y ys)
  have "0 \<le> sum_list (map (\<lambda>z. (y - z)\<^sup>2) ys)"
    by (rule sum_list_nonneg) auto
  then have "2 * y * sum_list ys \<le> real (length ys) * y\<^sup>2 + sum_list (map (\<lambda>z. z\<^sup>2) ys)"
    by (simp add: sum_sq_diff)
  with Cons.IH show ?case
    by (simp add: power2_sum algebra_simps)
qed

lemma samuelson:
  assumes zero: "sum_list ds = 0" and mem: "d \<in> set (ds :: real list)"
  shows "real (length ds) * d\<^sup>2 \<le> (real (length ds) - 1) * sum_list (map (\<lambda>z. z\<^sup>2) ds)"
proof -
  from mem obtain ys zs where ds: "ds = ys @ d # zs"
    by (auto simp: in_set_conv_decomp)
  let ?os = "ys @ zs"
  let ?Q = "sum_list (map (\<lambda>z. z\<^sup>2) ?os)"
  have s: "sum_list ?os = - d"
    using zero by (simp add: ds)
  have "d\<^sup>2 = (sum_list ?os)\<^sup>2"
    by (simp only: s power2_minus)
  also have "\<dots> \<le> real (length ?os) * ?Q"
    by (rule cauchy_list)
  finally have "d\<^sup>2 \<le> real (length ?os) * ?Q" .
  moreover have "length ds = Suc (length ?os)"
    and "sum_list (map (\<lambda>z. z\<^sup>2) ds) = d\<^sup>2 + ?Q"
    by (simp_all add: ds)
  ultimately show ?thesis
    by (simp add: algebra_simps)
qed

lemma deviations_zero:
  assumes "xs \<noteq> []"
  shows "sum_list (map (\<lambda>x. real_of_int x - mean_r xs) xs) = 0"
proof -
  have "sum_list (map (\<lambda>x. real_of_int x - c) xs)
      = real_of_int (sum_list xs) - real (length xs) * c" for c
    by (induction xs) (simp_all add: algebra_simps)
  then show ?thesis
    using assms by (simp add: mean_r_def)
qed

lemma no_outlier_small:
  assumes n: "2 \<le> length xs" "length xs < 6" and x: "x \<in> set xs"
  shows "\<not> is_outlier xs x"
proof
  assume out: "is_outlier xs x"
  let ?ds = "map (\<lambda>x. real_of_int x - mean_r xs) xs"
  let ?d = "real_of_int x - mean_r xs"
  let ?S = "sum_list (map (\<lambda>x. (real_of_int x - mean_r xs)\<^sup>2) xs)"
  have S: "sum_list (map (\<lambda>z. z\<^sup>2) ?ds) = ?S"
    by (simp add: comp_def)
  have "xs \<noteq> []" using n by auto
  then have "sum_list ?ds = 0" by (rule deviations_zero)
  moreover have "?d \<in> set ?ds" using x by auto
  ultimately have sam: "real (length xs) * ?d\<^sup>2 \<le> (real (length xs) - 1) * ?S"
    using samuelson [of ?ds ?d] by (simp only: S length_map)
  have pos: "0 < real (length xs) - 1" using n by simp
  have sd: "0 \<le> sd_r xs" by (rule sd_r_nonneg)
  have sd0: "sd_r xs \<noteq> 0"
  proof
    assume "sd_r xs = 0"
    then show False using out by (simp add: is_outlier_def)
  qed
  with sd have sdp: "0 < sd_r xs" by simp
  from out have "2 * sd_r xs < \<bar>?d\<bar>"
    using sdp by (simp add: is_outlier_def pos_less_divide_eq)
  then have "(2 * sd_r xs)\<^sup>2 < \<bar>?d\<bar>\<^sup>2"
    using sd by (intro power_strict_mono) simp_all
  then have "4 * (sd_r xs)\<^sup>2 < ?d\<^sup>2"
    by (simp add: power_mult_distrib)
  moreover have S0: "0 \<le> ?S"
    by (rule sum_list_nonneg) auto
  then have "(sd_r xs)\<^sup>2 = ?S / (real (length xs) - 1)"
    using pos by (simp add: sd_r_def)
  ultimately have "4 * ?S / (real (length xs) - 1) < ?d\<^sup>2"
    by simp
  then have big: "4 * ?S < (real (length xs) - 1) * ?d\<^sup>2"
    using pos by (simp add: pos_divide_less_eq mult.commute)
  have "length xs = 2 \<or> length xs = 3 \<or> length xs = 4 \<or> length xs = 5"
    using n by arith
  then show False
    using sam big S0 by (elim disjE) simp_all
qed

lemma z_bound_real:
  fixes n d sd S :: real
  assumes sam: "n * d\<^sup>2 \<le> (n - 1) * S" and Seq: "S = (n - 1) * sd\<^sup>2"
    and n: "0 < n" "0 < n - 1" and sd: "0 < sd"
  shows "\<bar>d\<bar> / sd \<le> (n - 1) / sqrt n"
proof -
  have "n * d\<^sup>2 \<le> (n - 1) * ((n - 1) * sd\<^sup>2)"
    using sam unfolding Seq .
  also have "\<dots> = ((n - 1) * sd)\<^sup>2"
    by (simp add: power2_eq_square)
  finally have "n * d\<^sup>2 \<le> ((n - 1) * sd)\<^sup>2" .
  moreover have "(sqrt n * \<bar>d\<bar>)\<^sup>2 = n * d\<^sup>2"
    using n(1) by (simp add: power_mult_distrib)
  ultimately have "(sqrt n * \<bar>d\<bar>)\<^sup>2 \<le> ((n - 1) * sd)\<^sup>2"
    by simp
  moreover have "0 \<le> (n - 1) * sd"
    using n(2) sd by simp
  ultimately have "sqrt n * \<bar>d\<bar> \<le> (n - 1) * sd"
    by (rule power2_le_imp_le)
  moreover have "0 < sqrt n" using n(1) by simp
  ultimately show ?thesis
    using sd by (simp add: field_simps)
qed

lemma z_bound:
  assumes n: "2 \<le> length xs" and sd0: "sd_r xs \<noteq> 0" and x: "x \<in> set xs"
  shows "\<bar>real_of_int x - mean_r xs\<bar> / sd_r xs \<le> (real (length xs) - 1) / sqrt (real (length xs))"
proof -
  let ?n = "real (length xs)"
  let ?ds = "map (\<lambda>x. real_of_int x - mean_r xs) xs"
  let ?d = "real_of_int x - mean_r xs"
  let ?S = "sum_list (map (\<lambda>x. (real_of_int x - mean_r xs)\<^sup>2) xs)"
  have S: "sum_list (map (\<lambda>z. z\<^sup>2) ?ds) = ?S"
    by (simp add: comp_def)
  have "xs \<noteq> []" using n by auto
  then have "sum_list ?ds = 0" by (rule deviations_zero)
  moreover have "?d \<in> set ?ds" using x by auto
  ultimately have sam: "?n * ?d\<^sup>2 \<le> (?n - 1) * ?S"
    using samuelson [of ?ds ?d] by (simp only: S length_map)
  have pos: "0 < ?n - 1" and npos: "0 < ?n" using n by auto
  have sdp: "0 < sd_r xs" using sd_r_nonneg [of xs] sd0 by simp
  have S0: "0 \<le> ?S"
    by (rule sum_list_nonneg) auto
  then have "(sd_r xs)\<^sup>2 = ?S / (?n - 1)"
    using pos by (simp add: sd_r_def)
  then have Seq: "?S = (?n - 1) * (sd_r xs)\<^sup>2"
    using pos by simp
  show ?thesis
    by (rule z_bound_real [OF sam Seq npos pos sdp])
qed

lemma small_bound:
  assumes "1 \<le> n" and "n < 6"
  shows "(real n - 1) / sqrt (real n) < 2"
proof -
  have "n = 1 \<or> n = 2 \<or> n = 3 \<or> n = 4 \<or> n = 5"
    using assms by arith
  then have "((real n - 1) / 2)\<^sup>2 < real n"
    by (elim disjE) (simp_all add: power2_eq_square)
  then have "(real n - 1) / 2 < sqrt (real n)"
    by (rule real_less_rsqrt)
  moreover have "0 < sqrt (real n)" using assms by simp
  ultimately show ?thesis
    by (simp add: field_simps)
qed

text \<open>
  C9. A series of fewer than 6 months has no flagged month, whatever its values: the
  distance of a value from the mean over the sample standard deviation is at most
  \<open>(n - 1) / sqrt n\<close> on a series of \<open>n\<close> months, and that bound is below 2 for
  \<open>n\<close> up to 5.
\<close>

theorem short_series_unflagged:
  "(length s < 6 \<longrightarrow> anomalies s = []) \<and>
   (\<forall>p \<in> set s. 2 \<le> length s \<and> sd_r (map snd s) \<noteq> 0 \<longrightarrow>
      \<bar>real_of_int (snd p) - mean_r (map snd s)\<bar> / sd_r (map snd s)
        \<le> (real (length s) - 1) / sqrt (real (length s))) \<and>
   (1 \<le> length s \<and> length s < 6 \<longrightarrow> (real (length s) - 1) / sqrt (real (length s)) < 2)"
proof (intro conjI impI ballI)
  assume short: "length s < 6"
  let ?xs = "map snd s"
  show "anomalies s = []"
  proof (cases "length s < 2 \<or> sd_r ?xs = 0")
    case True
    have z: "fdiv (fsub (Fin (real_of_int x)) (mean ?xs)) (std ?xs) = FNaN" if "x \<in> set ?xs" for x
      using flag_degenerate [of ?xs x] True that by simp
    show ?thesis
      unfolding anomalies_filter using z by (simp add: filter_empty_conv)
  next
    case False
    then have n: "2 \<le> length ?xs" "length ?xs < 6" and sd: "sd_r ?xs \<noteq> 0"
      using short by simp_all
    have "anomalies s = filter (\<lambda>p. is_outlier ?xs (snd p)) s"
      using n(1) sd by (simp add: anomalies_filter flag_regular)
    also have "\<dots> = []"
      using no_outlier_small [OF n] by (simp add: filter_empty_conv)
    finally show ?thesis .
  qed
next
  fix p assume "p \<in> set s" and "2 \<le> length s \<and> sd_r (map snd s) \<noteq> 0"
  then show "\<bar>real_of_int (snd p) - mean_r (map snd s)\<bar> / sd_r (map snd s)
        \<le> (real (length s) - 1) / sqrt (real (length s))"
    using z_bound [of "map snd s" "snd p"] by simp
next
  assume "1 \<le> length s \<and> length s < 6"
  then show "(real (length s) - 1) / sqrt (real (length s)) < 2"
    using small_bound by blast
qed

theorem short_series_unflagged_witness:
  "length ex_short < 6 \<and> anomalies ex_short = []"
proof -
  have "length ex_short < 6" by (simp add: ex_short_def)
  with short_series_unflagged [of ex_short] show ?thesis by simp
qed

end
